theory Spec2Isabelle
  imports Main
begin

section \<open>The check\_afinfo plugin: data model\<close>

text \<open>
  The plugin \<^verbatim>\<open>CheckAFInfo\<close> (volatility/plugins/linux/check\_afinfo.py) walks the
  operation tables of the network protocols of a Linux memory image and names, for every
  function pointer it finds there, the kernel module the pointer leads into.

  The plugin works through three collaborators whose classes live outside the file:
  the profile (the struct layouts of the kernel build), the kernel address space with the
  kernel's symbol table, and the \<^verbatim>\<open>lsmod\<close> plugin, which knows the loaded modules.
  They are the fields of the record \<open>session\<close> below.
\<close>

subsection \<open>Errors\<close>

text \<open>
  \<open>NoSuchType t\<close>: the profile was asked to instantiate a record type it does not define.
  \<open>SymbolNotFound n\<close>: the profile was asked for a global the kernel build lacks.
  \<open>ReadError\<close>: a read against the address space failed.
  \<open>NameError n\<close>: Python's exception for reading a name that is bound nowhere.
\<close>

datatype error = NoSuchType string | SymbolNotFound string | ReadError | NameError string

subsection \<open>Generators\<close>

text \<open>
  A run of a generator is the list of what it yielded and the exception that ended it, if
  one did.
\<close>

type_synonym 'a generator = "'a list \<times> error option"

text \<open>\<^verbatim>\<open>yield x\<close>, followed by the rest of the generator's body.\<close>

definition yield :: "'a \<Rightarrow> 'a generator \<Rightarrow> 'a generator" where
  "yield x rest = (x # fst rest, snd rest)"

text \<open>One part of a generator's body after another: an exception in the first ends the run.\<close>

definition and_then :: "'a generator \<Rightarrow> 'a generator \<Rightarrow> 'a generator" where
  "and_then g h =
     (case snd g of
        Some e \<Rightarrow> g
      | None \<Rightarrow> (fst g @ fst h, snd h))"

subsection \<open>The profile\<close>

text \<open>
  A profile maps the name of a record type to the names of its members, in the order in
  which Python iterates over the \<^verbatim>\<open>members\<close> dictionary of the type.
\<close>

type_synonym layout = "string \<rightharpoonup> string list"

text \<open>\<^verbatim>\<open>self.profile.has_type(t)\<close>\<close>

definition has_type :: "layout \<Rightarrow> string \<Rightarrow> bool" where
  "has_type prof t = (case prof t of None \<Rightarrow> False | Some ms \<Rightarrow> True)"

text \<open>
  Modelled from the spec: \<^verbatim>\<open>self.profile.T().members\<close>, whose class (the profile) is
  not part of the plugin's file. For a type the profile defines, the result is the member
  names of the type. For a type it lacks the spec's error taxonomy decides: a layout
  "missing the baseline record type entirely" is a fatal configuration error, and
  \<^verbatim>\<open>has_type\<close> is the query that guards the other instantiations.
\<close>

definition type_members :: "layout \<Rightarrow> string \<Rightarrow> error + string list" where
  "type_members prof t = (case prof t of None \<Rightarrow> Inl (NoSuchType t) | Some ms \<Rightarrow> Inr ms)"

subsection \<open>Struct instances and pointers\<close>

text \<open>
  What a field of a struct instance holds once it is read through the address space:
  the read fails (\<open>Unreadable\<close>), or it gives the value of the pointer.
\<close>

datatype field = Unreadable | Holds int

text \<open>A struct instance: the fields defined for it on this kernel, by field path.\<close>

type_synonym struct = "string \<rightharpoonup> field"

text \<open>The result of \<^verbatim>\<open>struct.m(member)\<close>: a pointer with its value, or no pointer.\<close>

datatype pointer = NonePointer | Pointer int

text \<open>
  Modelled from the spec: \<^verbatim>\<open>struct.m(member)\<close>, a method of the object model, which
  is not part of the plugin's file. A field path that does not exist on the struct gives
  no pointer ("a missing field path at any nesting level is a normal, silent skip"; the
  plugin's own docstring: "the code simply ignores struct members which are not defined on
  this kernel"). A read that fails against the address space raises
  ("AddressSpace.read(address, length) -> bytes | fails with ReadError").
\<close>

definition m :: "struct \<Rightarrow> string \<Rightarrow> error + pointer" where
  "m struct member =
     (case struct member of
        None \<Rightarrow> Inr NonePointer
      | Some Unreadable \<Rightarrow> Inl ReadError
      | Some (Holds v) \<Rightarrow> Inr (Pointer v))"

text \<open>
  The object \<^verbatim>\<open>ptr.dereference_as(target="Function", target_args=dict(name=member))\<close>:
  a function named after the member, at the address the pointer holds.
\<close>

datatype func = Function (func_name: string) (obj_offset: int)

subsection \<open>Loaded modules\<close>

text \<open>
  Modelled from the spec: the module index behind \<^verbatim>\<open>self.module_plugin\<close> (the lsmod
  plugin, not part of the plugin's file): each loaded module has a name and owns the
  addresses from its start up to, not including, its end.
\<close>

record module =
  mod_name :: string
  mod_start :: int
  mod_end :: int

text \<open>
  Modelled from the spec: \<^verbatim>\<open>self.module_plugin.find_module(addr)\<close> gives a module
  whose range holds the address (the first one of the index), or none.
\<close>

definition find_module :: "module list \<Rightarrow> int \<Rightarrow> module option" where
  "find_module mods addr =
     List.find (\<lambda>md. mod_start md \<le> addr \<and> addr < mod_end md) mods"

subsection \<open>The session\<close>

text \<open>
  \<open>profile\<close>: the struct layouts. \<open>constants\<close>: the kernel's symbol table, from the
  name of a global to its address. \<open>kernel_address_space\<close>: the struct instance that
  the memory image holds for a record type at an address. \<open>module_plugin\<close>: the loaded
  modules.
\<close>

record session =
  profile :: layout
  constants :: "string \<rightharpoonup> int"
  kernel_address_space :: "string \<Rightarrow> int \<Rightarrow> struct"
  module_plugin :: "module list"

text \<open>
  Modelled from the spec: \<^verbatim>\<open>self.profile.get_constant_object(variable, target=t, vm=...)\<close>,
  a method of the profile. A global the kernel build has is instantiated as a struct of
  the target type at its address; for a global it lacks the call raises
  ("get_constant_object(symbol_name, target_type, address_space) -> struct_instance |
  fails with SymbolNotFound").
\<close>

definition get_constant_object :: "session \<Rightarrow> string \<Rightarrow> string \<Rightarrow> error + struct" where
  "get_constant_object s variable target =
     (case constants s variable of
        None \<Rightarrow> Inl (SymbolNotFound variable)
      | Some addr \<Rightarrow> Inr (kernel_address_space s target addr))"

section \<open>The plugin\<close>

subsection \<open>CreateChecks\<close>

text \<open>One check: a dictionary with the keys name, constant\_type, global\_vars and members.\<close>

record check =
  name :: string
  constant_type :: string
  global_vars :: "string list"
  members :: "string list"

text \<open>
  \<^verbatim>\<open>members = self.profile.file_operations().members.keys()\<close>, then the two
  \<^verbatim>\<open>members.extend([... % x for x in ...])\<close> under their \<^verbatim>\<open>has_type\<close> guards.
  \<open>extend\<close> is one such guarded step: the list so far, followed by the members of
  the type \<open>t\<close>, each behind the prefix.
\<close>

definition extend :: "layout \<Rightarrow> string \<Rightarrow> string \<Rightarrow> string list \<Rightarrow> error + string list" where
  "extend prof t prefix mems =
     (if has_type prof t
      then (case type_members prof t of
              Inl e \<Rightarrow> Inl e
            | Inr xs \<Rightarrow> Inr (mems @ map (\<lambda>x. prefix @ x) xs))
      else Inr mems)"

definition candidate_members :: "layout \<Rightarrow> error + string list" where
  "candidate_members prof =
     (case type_members prof ''file_operations'' of
        Inl e \<Rightarrow> Inl e
      | Inr mems \<Rightarrow>
          (case extend prof ''seq_operations'' ''seq_ops.'' mems of
             Inl e \<Rightarrow> Inl e
           | Inr mems \<Rightarrow> extend prof ''file_operations'' ''seq_fops.'' mems))"

definition CreateChecks :: "layout \<Rightarrow> error + check list" where
  "CreateChecks prof =
     (case candidate_members prof of
        Inl e \<Rightarrow> Inl e
      | Inr mems \<Rightarrow>
          Inr [\<lparr>name = ''tcp'',
                constant_type = ''tcp_seq_afinfo'',
                global_vars = [''tcp6_seq_afinfo'', ''tcp4_seq_afinfo''],
                members = mems\<rparr>,
               \<lparr>name = ''udp'',
                constant_type = ''udp_seq_afinfo'',
                global_vars = [''udplite6_seq_afinfo'', ''udp6_seq_afinfo'',
                               ''udplite4_seq_afinfo'', ''udp4_seq_afinfo''],
                members = mems\<rparr>])"

subsection \<open>check\_members\<close>

text \<open>
  The generator \<^verbatim>\<open>check_members(struct, members)\<close>: it yields triples (member,
  func, module name). \<^verbatim>\<open>if not ptr: continue\<close> passes over a member that gives no
  pointer and over a pointer whose value is zero. The body has no exception handler: an
  exception of \<^verbatim>\<open>struct.m\<close> ends the run.
\<close>

fun check_members :: "module list \<Rightarrow> struct \<Rightarrow> string list \<Rightarrow> (string \<times> func \<times> string) generator" where
  "check_members mods struct [] = ([], None)"
| "check_members mods struct (member # rest) =
     (case m struct member of
        Inl e \<Rightarrow> ([], Some e)
      | Inr NonePointer \<Rightarrow> check_members mods struct rest
      | Inr (Pointer v) \<Rightarrow>
          if v = 0 then check_members mods struct rest
          else
            let func = Function member v in
            (case find_module mods (obj_offset func) of
               Some module \<Rightarrow>
                 yield (member, func, mod_name module) (check_members mods struct rest)
             | None \<Rightarrow>
                 yield (member, func, ''Unknown'') (check_members mods struct rest)))"

subsection \<open>check\_functions\<close>

text \<open>
  A finding is the tuple (variable, member, func, location) that
  \<^verbatim>\<open>check_functions\<close> yields.
\<close>

type_synonym finding = "string \<times> string \<times> func \<times> string"

text \<open>
  The innermost loop,
  \<^verbatim>\<open>for member, func, location1 in self.check_members(...): yield variable, member, func, location\<close>.
  The loop binds \<^verbatim>\<open>location1\<close>; the tuple it yields reads \<^verbatim>\<open>location\<close>, a name
  that neither the generator nor the module binds, and Python raises NameError when it
  builds the tuple for the first result of \<^verbatim>\<open>check_members\<close>. When
  \<^verbatim>\<open>check_members\<close> ends before it has a first result, the loop ends the way it did.
\<close>

fun yield_results :: "string \<Rightarrow> (string \<times> func \<times> string) generator \<Rightarrow> finding generator" where
  "yield_results variable ([], raised) = ([], raised)"
| "yield_results variable ((member, func, location1) # results, raised) =
     ([], Some (NameError ''location''))"

text \<open>
  \<^verbatim>\<open>for variable in check["global_vars"]: ...\<close>. The body has no exception handler: an
  exception of \<^verbatim>\<open>get_constant_object\<close> ends the run.
\<close>

fun check_variables :: "session \<Rightarrow> check \<Rightarrow> string list \<Rightarrow> finding generator" where
  "check_variables s check [] = ([], None)"
| "check_variables s check (variable # variables) =
     (case get_constant_object s variable (constant_type check) of
        Inl e \<Rightarrow> ([], Some e)
      | Inr var_ptr \<Rightarrow>
          and_then
            (yield_results variable (check_members (module_plugin s) var_ptr (members check)))
            (check_variables s check variables))"

text \<open>\<^verbatim>\<open>for check in checks: ...\<close>\<close>

fun check_functions :: "session \<Rightarrow> check list \<Rightarrow> finding generator" where
  "check_functions s [] = ([], None)"
| "check_functions s (check # checks) =
     and_then (check_variables s check (global_vars check)) (check_functions s checks)"

subsection \<open>render\<close>

text \<open>
  The rows that \<^verbatim>\<open>render\<close> hands to the renderer: a finding, highlighted as
  important when its location is "Unknown".
\<close>

definition table_row :: "finding \<Rightarrow> finding \<times> string option" where
  "table_row f =
     (case f of (variable, member, func, location) \<Rightarrow>
        (f, if location = ''Unknown'' then Some ''important'' else None))"

definition render :: "session \<Rightarrow> (finding \<times> string option) generator" where
  "render s =
     (case CreateChecks (profile s) of
        Inl e \<Rightarrow> ([], Some e)
      | Inr checks \<Rightarrow>
          (case check_functions s checks of
             (findings, r) \<Rightarrow> (map table_row findings, r)))"

section \<open>A scenario\<close>

text \<open>
  A small kernel image in the shape of the scenarios of the spec's testable properties.
  The profile defines \<open>file_operations\<close> (members open, read) and
  \<open>seq_operations\<close> (member show). One module, tcp\_mod, is loaded at
  0x1000 up to 0x2000. The kernel build has the six globals. In tcp4\_seq\_afinfo, at
  0x100, seq\_ops.show points to 0x1500 (into tcp\_mod), seq\_fops.open to 0x9000 (into
  no module) and seq\_fops.read is null. In udp4\_seq\_afinfo, at 0x200, seq\_ops.show
  points to 0x9000. The other four structs have none of the candidate fields.
\<close>

definition scenario_profile :: layout where
  "scenario_profile =
     [''file_operations'' \<mapsto> [''open'', ''read''], ''seq_operations'' \<mapsto> [''show'']]"

definition scenario_tcp4 :: struct where
  "scenario_tcp4 =
     [''seq_ops.show'' \<mapsto> Holds 5376, ''seq_fops.open'' \<mapsto> Holds 36864,
      ''seq_fops.read'' \<mapsto> Holds 0]"

definition scenario_udp4 :: struct where
  "scenario_udp4 = [''seq_ops.show'' \<mapsto> Holds 36864]"

definition scenario_memory :: "string \<Rightarrow> int \<Rightarrow> struct" where
  "scenario_memory target addr =
     (if target = ''tcp_seq_afinfo'' \<and> addr = 256 then scenario_tcp4
      else if target = ''udp_seq_afinfo'' \<and> addr = 512 then scenario_udp4
      else Map.empty)"

definition scenario_modules :: "module list" where
  "scenario_modules = [\<lparr>mod_name = ''tcp_mod'', mod_start = 4096, mod_end = 8192\<rparr>]"

definition scenario :: session where
  "scenario =
     \<lparr>profile = scenario_profile,
      constants =
        [''tcp6_seq_afinfo'' \<mapsto> 64, ''tcp4_seq_afinfo'' \<mapsto> 256,
         ''udplite6_seq_afinfo'' \<mapsto> 320, ''udp6_seq_afinfo'' \<mapsto> 384,
         ''udplite4_seq_afinfo'' \<mapsto> 448, ''udp4_seq_afinfo'' \<mapsto> 512],
      kernel_address_space = scenario_memory,
      module_plugin = scenario_modules\<rparr>"

text \<open>The candidate members and the two checks that \<open>CreateChecks\<close> builds for the scenario.\<close>

definition scenario_members :: "string list" where
  "scenario_members = [''open'', ''read'', ''seq_ops.show'', ''seq_fops.open'', ''seq_fops.read'']"

definition scenario_tcp :: check where
  "scenario_tcp =
     \<lparr>name = ''tcp'', constant_type = ''tcp_seq_afinfo'',
      global_vars = [''tcp6_seq_afinfo'', ''tcp4_seq_afinfo''],
      members = scenario_members\<rparr>"

definition scenario_udp :: check where
  "scenario_udp =
     \<lparr>name = ''udp'', constant_type = ''udp_seq_afinfo'',
      global_vars = [''udplite6_seq_afinfo'', ''udp6_seq_afinfo'',
                     ''udplite4_seq_afinfo'', ''udp4_seq_afinfo''],
      members = scenario_members\<rparr>"

text \<open>
  A kernel build that lacks udp6\_seq\_afinfo. Of its five structs only udp4\_seq\_afinfo
  holds a pointer (seq\_ops.show, to 0x9000).
\<close>

definition scenario_without_udp6 :: session where
  "scenario_without_udp6 =
     \<lparr>profile = scenario_profile,
      constants =
        [''tcp6_seq_afinfo'' \<mapsto> 64, ''tcp4_seq_afinfo'' \<mapsto> 256,
         ''udplite6_seq_afinfo'' \<mapsto> 320,
         ''udplite4_seq_afinfo'' \<mapsto> 448, ''udp4_seq_afinfo'' \<mapsto> 512],
      kernel_address_space =
        (\<lambda>target addr.
           if target = ''udp_seq_afinfo'' \<and> addr = 512 then scenario_udp4 else Map.empty),
      module_plugin = scenario_modules\<rparr>"


section \<open>Properties\<close>

subsection \<open>The module index\<close>



subsection \<open>Runs of generators\<close>

lemma and_then_empty [simp]: "and_then ([], None) h = h"
  by (simp add: and_then_def)

lemma and_then_empty_right: "and_then g ([], None) = g"
  by (cases g) (simp add: and_then_def split: option.splits)

lemma and_then_raised [simp]: "and_then (xs, Some e) h = (xs, Some e)"
  by (simp add: and_then_def)

lemma and_then_assoc: "and_then (and_then f g) h = and_then f (and_then g h)"
  by (cases f; cases g; cases h) (auto simp: and_then_def split: option.splits)


lemma and_then_nothing: "fst g = [] \<Longrightarrow> fst h = [] \<Longrightarrow> fst (and_then g h) = []"
  by (simp add: and_then_def split: option.splits)

subsection \<open>What check\_members yields\<close>



lemma check_members_scenario_tcp4:
  "check_members scenario_modules scenario_tcp4 scenario_members =
     ([(''seq_ops.show'', Function ''seq_ops.show'' 5376, ''tcp_mod''),
       (''seq_fops.open'', Function ''seq_fops.open'' 36864, ''Unknown'')], None)"
  by (simp add: scenario_modules_def scenario_tcp4_def scenario_members_def find_module_def
      m_def yield_def)

lemma check_members_scenario_udp4:
  "check_members scenario_modules scenario_udp4 scenario_members =
     ([(''seq_ops.show'', Function ''seq_ops.show'' 36864, ''Unknown'')], None)"
  by (simp add: scenario_modules_def scenario_udp4_def scenario_members_def find_module_def
      m_def yield_def)

lemma check_members_no_fields: "check_members mods Map.empty ms = ([], None)"
  by (induction ms) (simp_all add: m_def)

subsection \<open>Runs of check\_functions\<close>

lemma check_variables_append:
  "check_variables s check (vars @ vars') =
     and_then (check_variables s check vars) (check_variables s check vars')"
  by (induction vars) (simp_all add: and_then_assoc split: sum.splits)

lemma check_functions_append:
  "check_functions s (checks @ checks') =
     and_then (check_functions s checks) (check_functions s checks')"
  by (induction checks) (simp_all add: and_then_assoc)

lemma check_variables_global_vars:
  "check_variables s (check\<lparr>global_vars := g\<rparr>) vars = check_variables s check vars"
  by (induction vars) (simp_all split: sum.splits)

lemma check_variables_agree:
  "module_plugin s = module_plugin s' \<Longrightarrow>
   \<forall>variable \<in> set vars. get_constant_object s variable (constant_type check) =
                            get_constant_object s' variable (constant_type check) \<Longrightarrow>
   check_variables s check vars = check_variables s' check vars"
  by (induction vars) (simp_all split: sum.splits)

text \<open>No run of \<open>check_functions\<close> yields a finding: the first tuple it builds raises.\<close>

lemma yield_results_nothing: "fst (yield_results variable results) = []"
  by (cases "(variable, results)" rule: yield_results.cases) auto

lemma check_variables_nothing: "fst (check_variables s check vars) = []"
  by (induction vars)
    (simp_all add: and_then_nothing yield_results_nothing split: sum.splits)

lemma check_functions_nothing: "fst (check_functions s checks) = []"
  by (induction checks) (simp_all add: and_then_nothing check_variables_nothing)

text \<open>The runs of the scenario.\<close>

lemma scenario_objects:
  "get_constant_object scenario ''tcp6_seq_afinfo'' ''tcp_seq_afinfo'' = Inr Map.empty"
  "get_constant_object scenario ''tcp4_seq_afinfo'' ''tcp_seq_afinfo'' = Inr scenario_tcp4"
  "get_constant_object scenario ''udplite6_seq_afinfo'' ''udp_seq_afinfo'' = Inr Map.empty"
  "get_constant_object scenario ''udp6_seq_afinfo'' ''udp_seq_afinfo'' = Inr Map.empty"
  "get_constant_object scenario ''udplite4_seq_afinfo'' ''udp_seq_afinfo'' = Inr Map.empty"
  "get_constant_object scenario ''udp4_seq_afinfo'' ''udp_seq_afinfo'' = Inr scenario_udp4"
  by (simp_all add: get_constant_object_def scenario_def scenario_memory_def)

lemma scenario_module_plugin: "module_plugin scenario = scenario_modules"
  by (simp add: scenario_def)

lemma check_functions_scenario:
  "check_functions scenario [scenario_tcp, scenario_udp] = ([], Some (NameError ''location''))"
  by (simp add: scenario_tcp_def scenario_objects scenario_module_plugin
      check_members_no_fields check_members_scenario_tcp4)

subsection \<open>The candidate members\<close>

lemma candidate_members_defined:
  "prof ''file_operations'' = Some base \<Longrightarrow>
     candidate_members prof =
       Inr (base @
            (case prof ''seq_operations'' of
               None \<Rightarrow> []
             | Some ops \<Rightarrow> map (\<lambda>x. ''seq_ops.'' @ x) ops) @
            map (\<lambda>x. ''seq_fops.'' @ x) base)"
  by (simp add: candidate_members_def extend_def type_members_def has_type_def
      split: option.splits)

lemma candidate_members_undefined:
  "prof ''file_operations'' = None \<Longrightarrow>
     candidate_members prof = Inl (NoSuchType ''file_operations'')"
  by (simp add: candidate_members_def type_members_def)

lemma candidate_members_scenario: "candidate_members scenario_profile = Inr scenario_members"
  by (simp add: candidate_members_def extend_def type_members_def has_type_def
      scenario_profile_def scenario_members_def)

lemma CreateChecks_scenario: "CreateChecks scenario_profile = Inr [scenario_tcp, scenario_udp]"
  by (simp add: CreateChecks_def candidate_members_scenario scenario_tcp_def scenario_udp_def)

section \<open>The claims\<close>

subsection \<open>C1: the location of a finding\<close>

text \<open>
  C1 asks that the location of every finding of \<open>check_functions\<close> be the module name
  that \<open>check_members\<close> resolved for the same member. The code does not get that far.
  In the scenario, for the check of tcp4\_seq\_afinfo on its member seq\_ops.show,
  \<open>check_members\<close> resolves the pointer 0x1500 to tcp\_mod, and \<open>check_functions\<close>
  yields no finding for it: the run ends in the NameError for \<open>location\<close>.
\<close>

theorem check_functions_location_unbound:
  "get_constant_object scenario ''tcp4_seq_afinfo'' ''tcp_seq_afinfo'' = Inr scenario_tcp4 \<and>
   check_members (module_plugin scenario) scenario_tcp4 [''seq_ops.show''] =
     ([(''seq_ops.show'', Function ''seq_ops.show'' 5376, ''tcp_mod'')], None) \<and>
   check_functions scenario
     [\<lparr>name = ''tcp'', constant_type = ''tcp_seq_afinfo'',
       global_vars = [''tcp4_seq_afinfo''], members = [''seq_ops.show'']\<rparr>] =
     ([], Some (NameError ''location''))"
proof -
  have "check_members (module_plugin scenario) scenario_tcp4 [''seq_ops.show''] =
      ([(''seq_ops.show'', Function ''seq_ops.show'' 5376, ''tcp_mod'')], None)"
    by (simp add: scenario_module_plugin scenario_modules_def scenario_tcp4_def
        find_module_def m_def yield_def)
  then show ?thesis by (simp add: scenario_objects)
qed

subsection \<open>C2: which fields become findings\<close>

text \<open>
  C2 asks for a finding for every pair of a global symbol and a field whose pointer exists
  and is not null. In the scenario the field seq\_ops.show of tcp4\_seq\_afinfo is in the
  member list of the tcp check, exists on the struct and holds the pointer 0x1500, and the
  run of \<open>check_functions\<close> over the checks of \<open>CreateChecks\<close> has no finding for it.
\<close>

theorem check_functions_no_finding_for_pointer:
  "''tcp4_seq_afinfo'' \<in> set (global_vars scenario_tcp) \<and>
   ''seq_ops.show'' \<in> set (members scenario_tcp) \<and>
   get_constant_object scenario ''tcp4_seq_afinfo'' (constant_type scenario_tcp) =
     Inr scenario_tcp4 \<and>
   scenario_tcp4 ''seq_ops.show'' = Some (Holds 5376) \<and>
   \<not> (\<exists>func location. (''tcp4_seq_afinfo'', ''seq_ops.show'', func, location) \<in>
         set (fst (check_functions scenario [scenario_tcp, scenario_udp])))"
proof -
  have "\<not> (\<exists>func location. (''tcp4_seq_afinfo'', ''seq_ops.show'', func, location) \<in>
         set (fst (check_functions scenario [scenario_tcp, scenario_udp])))"
    by (simp only: check_functions_scenario) simp
  moreover have "''tcp4_seq_afinfo'' \<in> set (global_vars scenario_tcp)"
    and "''seq_ops.show'' \<in> set (members scenario_tcp)"
    by (simp_all add: scenario_tcp_def scenario_members_def)
  moreover have "get_constant_object scenario ''tcp4_seq_afinfo'' (constant_type scenario_tcp) =
      Inr scenario_tcp4"
    by (simp add: scenario_tcp_def scenario_objects)
  moreover have "scenario_tcp4 ''seq_ops.show'' = Some (Holds 5376)"
    by (simp add: scenario_tcp4_def)
  ultimately show ?thesis by blast
qed

subsection \<open>C3: the module a pointer is attributed to\<close>




subsection \<open>C4: when the enumeration of the members succeeds\<close>

text \<open>
  C4, as the claim states it, fails: on a layout that has neither \<open>seq_operations\<close>
  nor \<open>file_operations\<close> the enumeration does not return a list. Its first line
  instantiates \<open>file_operations\<close> with no guard, and the record type behind the
  seq\_fops sub-table is that same \<open>file_operations\<close>.
\<close>

theorem CreateChecks_without_base_type:
  "\<not> has_type [''tcp_seq_afinfo'' \<mapsto> [''name'', ''family'']] ''seq_operations'' \<and>
   \<not> has_type [''tcp_seq_afinfo'' \<mapsto> [''name'', ''family'']] ''file_operations'' \<and>
   CreateChecks [''tcp_seq_afinfo'' \<mapsto> [''name'', ''family'']] =
     Inl (NoSuchType ''file_operations'')"
  by (simp add: has_type_def CreateChecks_def candidate_members_def type_members_def)

text \<open>
  C4, amended. On every layout that defines the base record type \<open>file_operations\<close>
  the enumeration succeeds: \<open>CreateChecks\<close> returns the tcp check and the udp check, and
  the members of both are the full list of the base type, followed by the members of
  \<open>seq_operations\<close> behind "seq\_ops." (none when the layout lacks that type), followed
  by the members of the base type behind "seq\_fops.". On every layout that lacks
  \<open>file_operations\<close> the enumeration fails.
\<close>

theorem CreateChecks_with_base_type:
  "(prof ''file_operations'' = Some base \<longrightarrow>
      (let mems =
             base @
             (case prof ''seq_operations'' of
                None \<Rightarrow> []
              | Some ops \<Rightarrow> map (\<lambda>x. ''seq_ops.'' @ x) ops) @
             map (\<lambda>x. ''seq_fops.'' @ x) base
       in CreateChecks prof =
            Inr [\<lparr>name = ''tcp'', constant_type = ''tcp_seq_afinfo'',
                  global_vars = [''tcp6_seq_afinfo'', ''tcp4_seq_afinfo''],
                  members = mems\<rparr>,
                 \<lparr>name = ''udp'', constant_type = ''udp_seq_afinfo'',
                  global_vars = [''udplite6_seq_afinfo'', ''udp6_seq_afinfo'',
                                 ''udplite4_seq_afinfo'', ''udp4_seq_afinfo''],
                  members = mems\<rparr>])) \<and>
   (prof ''file_operations'' = None \<longrightarrow>
      CreateChecks prof = Inl (NoSuchType ''file_operations''))"
  by (simp add: CreateChecks_def candidate_members_defined candidate_members_undefined)

text \<open>
  A layout with \<open>file_operations\<close> (members open, read) and without
  \<open>seq_operations\<close>: the list is open, read, seq\_fops.open, seq\_fops.read. A layout
  with \<open>seq_operations\<close> only: the enumeration fails.
\<close>

theorem CreateChecks_with_base_type_witness:
  "[''file_operations'' \<mapsto> [''open'', ''read'']] ''file_operations'' = Some [''open'', ''read''] \<and>
   CreateChecks [''file_operations'' \<mapsto> [''open'', ''read'']] =
     Inr [\<lparr>name = ''tcp'', constant_type = ''tcp_seq_afinfo'',
           global_vars = [''tcp6_seq_afinfo'', ''tcp4_seq_afinfo''],
           members = [''open'', ''read'', ''seq_fops.open'', ''seq_fops.read'']\<rparr>,
          \<lparr>name = ''udp'', constant_type = ''udp_seq_afinfo'',
           global_vars = [''udplite6_seq_afinfo'', ''udp6_seq_afinfo'',
                          ''udplite4_seq_afinfo'', ''udp4_seq_afinfo''],
           members = [''open'', ''read'', ''seq_fops.open'', ''seq_fops.read'']\<rparr>] \<and>
   [''seq_operations'' \<mapsto> [''show'']] ''file_operations'' = None \<and>
   CreateChecks [''seq_operations'' \<mapsto> [''show'']] = Inl (NoSuchType ''file_operations'')"
  using CreateChecks_with_base_type
    [of "[''file_operations'' \<mapsto> [''open'', ''read'']]" "[''open'', ''read'']"]
    CreateChecks_with_base_type [of "[''seq_operations'' \<mapsto> [''show'']]" "[]"]
  by (simp add: Let_def)

subsection \<open>C9: the two checks\<close>

text \<open>
  C9. Whenever \<open>CreateChecks\<close> returns, it returns exactly two checks: the tcp check,
  of type tcp\_seq\_afinfo, over the globals tcp6\_seq\_afinfo and tcp4\_seq\_afinfo, and the
  udp check, of type udp\_seq\_afinfo, over the globals udplite6\_seq\_afinfo,
  udp6\_seq\_afinfo, udplite4\_seq\_afinfo and udp4\_seq\_afinfo; the two checks carry the
  same list of members.
\<close>

theorem CreateChecks_two_checks:
  "CreateChecks prof = Inr checks \<Longrightarrow>
     (\<exists>mems. checks =
        [\<lparr>name = ''tcp'', constant_type = ''tcp_seq_afinfo'',
          global_vars = [''tcp6_seq_afinfo'', ''tcp4_seq_afinfo''],
          members = mems\<rparr>,
         \<lparr>name = ''udp'', constant_type = ''udp_seq_afinfo'',
          global_vars = [''udplite6_seq_afinfo'', ''udp6_seq_afinfo'',
                         ''udplite4_seq_afinfo'', ''udp4_seq_afinfo''],
          members = mems\<rparr>])"
  by (auto simp: CreateChecks_def split: sum.splits)

theorem CreateChecks_two_checks_witness:
  "CreateChecks scenario_profile = Inr [scenario_tcp, scenario_udp] \<and>
   (\<exists>mems. [scenario_tcp, scenario_udp] =
        [\<lparr>name = ''tcp'', constant_type = ''tcp_seq_afinfo'',
          global_vars = [''tcp6_seq_afinfo'', ''tcp4_seq_afinfo''],
          members = mems\<rparr>,
         \<lparr>name = ''udp'', constant_type = ''udp_seq_afinfo'',
          global_vars = [''udplite6_seq_afinfo'', ''udp6_seq_afinfo'',
                         ''udplite4_seq_afinfo'', ''udp4_seq_afinfo''],
          members = mems\<rparr>])"
  using CreateChecks_two_checks [OF CreateChecks_scenario] CreateChecks_scenario by simp

subsection \<open>C10: the members of file\_operations are listed twice\<close>

text \<open>
  C10. Whenever the layout defines \<open>file_operations\<close>, \<open>CreateChecks\<close> returns its
  checks, and the members of every check begin with the members of \<open>file_operations\<close>
  as they are and end with the same members behind "seq\_fops.": every member of the type
  is in the list once bare and once prefixed.
\<close>

theorem file_operations_members_twice:
  "has_type prof ''file_operations'' \<Longrightarrow>
     (\<exists>base middle checks.
        prof ''file_operations'' = Some base \<and> CreateChecks prof = Inr checks \<and> checks \<noteq> [] \<and>
        (\<forall>check \<in> set checks.
           members check = base @ middle @ map (\<lambda>x. ''seq_fops.'' @ x) base \<and>
           (\<forall>x \<in> set base. x \<in> set (members check) \<and> ''seq_fops.'' @ x \<in> set (members check))))"
proof -
  assume "has_type prof ''file_operations''"
  then obtain base where base: "prof ''file_operations'' = Some base"
    by (auto simp: has_type_def split: option.splits)
  let ?middle = "case prof ''seq_operations'' of
                   None \<Rightarrow> []
                 | Some ops \<Rightarrow> map (\<lambda>x. ''seq_ops.'' @ x) ops"
  let ?mems = "base @ ?middle @ map (\<lambda>x. ''seq_fops.'' @ x) base"
  obtain checks where checks: "CreateChecks prof = Inr checks" "checks \<noteq> []"
    and mems: "\<forall>check \<in> set checks. members check = ?mems"
    using base by (simp add: CreateChecks_def candidate_members_defined)
  have "\<forall>x \<in> set base. x \<in> set ?mems \<and> ''seq_fops.'' @ x \<in> set ?mems"
    by simp
  with mems have "\<forall>check \<in> set checks.
      members check = ?mems \<and>
      (\<forall>x \<in> set base. x \<in> set (members check) \<and> ''seq_fops.'' @ x \<in> set (members check))"
    by simp
  with base checks show ?thesis by blast
qed

text \<open>
  In the scenario the members of \<open>file_operations\<close> are open and read, and the list of
  the tcp check is open, read, seq\_ops.show, seq\_fops.open, seq\_fops.read.
\<close>

theorem file_operations_members_twice_witness:
  "has_type scenario_profile ''file_operations'' \<and>
   (\<exists>base middle checks.
      scenario_profile ''file_operations'' = Some base \<and>
      CreateChecks scenario_profile = Inr checks \<and> checks \<noteq> [] \<and>
      (\<forall>check \<in> set checks.
         members check = base @ middle @ map (\<lambda>x. ''seq_fops.'' @ x) base \<and>
         (\<forall>x \<in> set base. x \<in> set (members check) \<and> ''seq_fops.'' @ x \<in> set (members check)))) \<and>
   CreateChecks scenario_profile = Inr [scenario_tcp, scenario_udp] \<and>
   members scenario_tcp =
     [''open'', ''read'', ''seq_ops.show'', ''seq_fops.open'', ''seq_fops.read'']"
proof -
  have has: "has_type scenario_profile ''file_operations''"
    by (simp add: has_type_def scenario_profile_def)
  have "members scenario_tcp =
      [''open'', ''read'', ''seq_ops.show'', ''seq_fops.open'', ''seq_fops.read'']"
    by (simp add: scenario_tcp_def scenario_members_def)
  then show ?thesis
    using file_operations_members_twice [OF has] has CreateChecks_scenario by blast
qed

subsection \<open>C5: a global symbol the kernel build lacks\<close>

text \<open>
  C5, as the claim states it, fails: \<open>check_functions\<close> has no handler for the
  exception of \<^verbatim>\<open>get_constant_object\<close>. On the kernel build without
  udp6\_seq\_afinfo, whose tcp structs and udplite6 struct hold no pointer, the scan
  reaches the symbol and ends there with SymbolNotFound; udp4\_seq\_afinfo, whose
  seq\_ops.show holds a pointer, is not visited.
\<close>

theorem check_functions_absent_symbol:
  "constants scenario_without_udp6 ''udp6_seq_afinfo'' = None \<and>
   CreateChecks (profile scenario_without_udp6) = Inr [scenario_tcp, scenario_udp] \<and>
   check_functions scenario_without_udp6 [scenario_tcp, scenario_udp] =
     ([], Some (SymbolNotFound ''udp6_seq_afinfo'')) \<and>
   render scenario_without_udp6 = ([], Some (SymbolNotFound ''udp6_seq_afinfo''))"
proof -
  have checks: "CreateChecks (profile scenario_without_udp6) = Inr [scenario_tcp, scenario_udp]"
    by (simp add: scenario_without_udp6_def CreateChecks_scenario)
  have objects:
    "get_constant_object scenario_without_udp6 ''tcp6_seq_afinfo'' ''tcp_seq_afinfo'' = Inr Map.empty"
    "get_constant_object scenario_without_udp6 ''tcp4_seq_afinfo'' ''tcp_seq_afinfo'' = Inr Map.empty"
    "get_constant_object scenario_without_udp6 ''udplite6_seq_afinfo'' ''udp_seq_afinfo'' = Inr Map.empty"
    "get_constant_object scenario_without_udp6 ''udp6_seq_afinfo'' ''udp_seq_afinfo'' =
       Inl (SymbolNotFound ''udp6_seq_afinfo'')"
    by (simp_all add: get_constant_object_def scenario_without_udp6_def)
  have run: "check_functions scenario_without_udp6 [scenario_tcp, scenario_udp] =
      ([], Some (SymbolNotFound ''udp6_seq_afinfo''))"
    by (simp add: scenario_tcp_def scenario_udp_def objects check_members_no_fields)
  have "render scenario_without_udp6 = ([], Some (SymbolNotFound ''udp6_seq_afinfo''))"
    by (simp add: render_def checks run del: check_functions.simps)
  moreover have "constants scenario_without_udp6 ''udp6_seq_afinfo'' = None"
    by (simp add: scenario_without_udp6_def)
  ultimately show ?thesis using checks run by simp
qed

text \<open>
  C5, amended. A global symbol that the kernel build lacks yields no finding and is not
  passed over: the run of \<open>check_functions\<close> ends at it. When the run up to the symbol
  ends without an exception, the whole run ends with SymbolNotFound for the symbol;
  otherwise it ends with the earlier exception. Either way the symbols and checks after it
  are not visited.
\<close>

theorem absent_symbol_raises:
  "constants s variable = None \<Longrightarrow>
     check_functions s (checks @ check\<lparr>global_vars := vars @ variable # vars'\<rparr> # checks') =
       (case snd (check_functions s (checks @ [check\<lparr>global_vars := vars\<rparr>])) of
          None \<Rightarrow> ([], Some (SymbolNotFound variable))
        | Some e \<Rightarrow> ([], Some e))"
proof -
  assume absent: "constants s variable = None"
  have step: "check_variables s check (variable # vars') = ([], Some (SymbolNotFound variable))"
    using absent by (simp add: get_constant_object_def)
  have vars: "check_variables s (check\<lparr>global_vars := g\<rparr>) (vars @ variable # vars') =
      and_then (check_variables s check vars) ([], Some (SymbolNotFound variable))" for g
    by (simp only: check_variables_global_vars check_variables_append step)
  have lhs: "check_functions s (checks @ check\<lparr>global_vars := vars @ variable # vars'\<rparr> # checks') =
      and_then (check_functions s checks)
        (and_then (and_then (check_variables s check vars) ([], Some (SymbolNotFound variable)))
           (check_functions s checks'))"
    by (simp add: check_functions_append vars del: check_variables.simps)
  have rhs: "check_functions s (checks @ [check\<lparr>global_vars := vars\<rparr>]) =
      and_then (check_functions s checks) (check_variables s check vars)"
    by (simp add: check_functions_append check_variables_global_vars and_then_empty_right
        del: check_variables.simps)
  obtain a where a: "check_functions s checks = ([], a)"
    using check_functions_nothing [of s checks] by (cases "check_functions s checks") simp
  obtain b where b: "check_variables s check vars = ([], b)"
    using check_variables_nothing [of s check vars] by (cases "check_variables s check vars") simp
  show ?thesis
    unfolding lhs rhs a b by (cases a; cases b) (simp_all add: and_then_def)
qed

text \<open>
  On the kernel build without udp6\_seq\_afinfo the run up to the symbol ends without an
  exception, and the whole run ends with SymbolNotFound.
\<close>

theorem absent_symbol_raises_witness:
  "constants scenario_without_udp6 ''udp6_seq_afinfo'' = None \<and>
   check_functions scenario_without_udp6
     ([scenario_tcp] @
      scenario_udp\<lparr>global_vars := [''udplite6_seq_afinfo''] @ ''udp6_seq_afinfo'' #
        [''udplite4_seq_afinfo'', ''udp4_seq_afinfo'']\<rparr> # []) =
     ([], Some (SymbolNotFound ''udp6_seq_afinfo''))"
proof -
  have absent: "constants scenario_without_udp6 ''udp6_seq_afinfo'' = None"
    by (simp add: scenario_without_udp6_def)
  have objects:
    "get_constant_object scenario_without_udp6 ''tcp6_seq_afinfo'' ''tcp_seq_afinfo'' = Inr Map.empty"
    "get_constant_object scenario_without_udp6 ''tcp4_seq_afinfo'' ''tcp_seq_afinfo'' = Inr Map.empty"
    "get_constant_object scenario_without_udp6 ''udplite6_seq_afinfo'' ''udp_seq_afinfo'' = Inr Map.empty"
    by (simp_all add: get_constant_object_def scenario_without_udp6_def)
  have before: "snd (check_functions scenario_without_udp6
      [scenario_tcp, scenario_udp\<lparr>global_vars := [''udplite6_seq_afinfo'']\<rparr>]) = None"
    by (simp add: scenario_tcp_def scenario_udp_def objects check_members_no_fields)
  show ?thesis
    using absent_symbol_raises [where s = scenario_without_udp6
        and variable = "''udp6_seq_afinfo''" and checks = "[scenario_tcp]"
        and check = scenario_udp and vars = "[''udplite6_seq_afinfo'']"
        and vars' = "[''udplite4_seq_afinfo'', ''udp4_seq_afinfo'']" and checks' = "[]",
        OF absent] absent
    by (simp add: before del: check_functions.simps check_variables.simps)
qed

subsection \<open>C6: a field that cannot be read\<close>




subsection \<open>C7: the order of the findings\<close>

text \<open>
  C7 asks for one visit of every combination of check, global symbol and field, and for
  the findings in the order of the checks, then of the symbols, then of the fields. In the
  scenario, with the checks that \<open>CreateChecks\<close> builds, \<open>check_members\<close> reports two
  members for tcp4\_seq\_afinfo and one for udp4\_seq\_afinfo, so three findings are due.
  The run of \<open>check_functions\<close>, and with it the run of \<open>render\<close>, ends at the first of
  them with the NameError for \<open>location\<close>: no finding is yielded, and the fields and
  symbols after it are not visited.
\<close>

theorem check_functions_ends_at_first_result:
  "CreateChecks (profile scenario) = Inr [scenario_tcp, scenario_udp] \<and>
   get_constant_object scenario ''tcp4_seq_afinfo'' (constant_type scenario_tcp) =
     Inr scenario_tcp4 \<and>
   check_members (module_plugin scenario) scenario_tcp4 (members scenario_tcp) =
     ([(''seq_ops.show'', Function ''seq_ops.show'' 5376, ''tcp_mod''),
       (''seq_fops.open'', Function ''seq_fops.open'' 36864, ''Unknown'')], None) \<and>
   get_constant_object scenario ''udp4_seq_afinfo'' (constant_type scenario_udp) =
     Inr scenario_udp4 \<and>
   check_members (module_plugin scenario) scenario_udp4 (members scenario_udp) =
     ([(''seq_ops.show'', Function ''seq_ops.show'' 36864, ''Unknown'')], None) \<and>
   check_functions scenario [scenario_tcp, scenario_udp] = ([], Some (NameError ''location'')) \<and>
   render scenario = ([], Some (NameError ''location''))"
proof -
  have checks: "CreateChecks (profile scenario) = Inr [scenario_tcp, scenario_udp]"
    by (simp add: scenario_def CreateChecks_scenario)
  have "render scenario = ([], Some (NameError ''location''))"
    by (simp add: render_def checks check_functions_scenario del: check_functions.simps)
  then show ?thesis
    using checks check_functions_scenario
    by (simp add: scenario_tcp_def scenario_udp_def scenario_objects scenario_module_plugin
        check_members_scenario_tcp4 check_members_scenario_udp4 del: check_functions.simps)
qed

subsection \<open>C8: the scan is a function of what it reads\<close>

text \<open>
  C8. Two runs of \<open>check_functions\<close> over the same checks end the same way, with the
  same findings in the same order, whenever the module index is the same and the globals
  that the checks name resolve to the same struct instances; and then, with the same
  profile, the two runs of \<open>render\<close> give the same rows. A second run against an
  unchanged address space and an unchanged module index is the case where the two sessions
  are one.
\<close>

theorem scan_deterministic:
  "module_plugin s = module_plugin s' \<Longrightarrow>
   \<forall>check \<in> set checks. \<forall>variable \<in> set (global_vars check).
      get_constant_object s variable (constant_type check) =
      get_constant_object s' variable (constant_type check) \<Longrightarrow>
   check_functions s checks = check_functions s' checks \<and>
   (profile s = profile s' \<longrightarrow> CreateChecks (profile s) = Inr checks \<longrightarrow> render s = render s')"
proof -
  assume mods: "module_plugin s = module_plugin s'"
  assume "\<forall>check \<in> set checks. \<forall>variable \<in> set (global_vars check).
      get_constant_object s variable (constant_type check) =
      get_constant_object s' variable (constant_type check)"
  then have "check_functions s checks = check_functions s' checks"
    by (induction checks) (simp_all add: check_variables_agree [OF mods])
  then show ?thesis by (simp add: render_def)
qed

text \<open>
  The scenario, and the scenario with one more global in the symbol table that no check
  names: the scan is the same.
\<close>

theorem scan_deterministic_witness:
  "module_plugin scenario =
     module_plugin (scenario\<lparr>constants := (constants scenario)(''sys_call_table'' \<mapsto> 1024)\<rparr>) \<and>
   check_functions scenario [scenario_tcp, scenario_udp] =
     check_functions (scenario\<lparr>constants := (constants scenario)(''sys_call_table'' \<mapsto> 1024)\<rparr>)
       [scenario_tcp, scenario_udp] \<and>
   render scenario =
     render (scenario\<lparr>constants := (constants scenario)(''sys_call_table'' \<mapsto> 1024)\<rparr>)"
proof -
  let ?s' = "scenario\<lparr>constants := (constants scenario)(''sys_call_table'' \<mapsto> 1024)\<rparr>"
  have mods: "module_plugin scenario = module_plugin ?s'"
    by simp
  have agree: "\<forall>check \<in> set [scenario_tcp, scenario_udp]. \<forall>variable \<in> set (global_vars check).
      get_constant_object scenario variable (constant_type check) =
      get_constant_object ?s' variable (constant_type check)"
    by (simp add: scenario_tcp_def scenario_udp_def get_constant_object_def scenario_def)
  have checks: "CreateChecks (profile scenario) = Inr [scenario_tcp, scenario_udp]"
    by (simp add: scenario_def CreateChecks_scenario)
  show ?thesis
    using scan_deterministic [OF mods agree] checks by simp
qed

end
